theory Spec2Isabelle
  imports Main "HOL-Library.Word"
begin

section \<open>Strings, numbers and the clock\<close>

text \<open>
  A JavaScript string is a sequence of UTF-16 code units: \<open>length\<close>, \<open>substring\<close> and
  \<open>trim\<close> all count code units, so the model keeps 16-bit units rather than bytes.
\<close>

type_synonym jsstring = "16 word list"

definition ascii :: "string \<Rightarrow> jsstring" where
  "ascii s = map (\<lambda>c. word_of_nat (of_char c)) s"

text \<open>
  The code units \<open>String.prototype.trim\<close> strips: the WhiteSpace and LineTerminator
  productions of ECMAScript (TAB, LF, VT, FF, CR, SP, NBSP, the Zs category, LS, PS, BOM).
\<close>

definition isWhiteSpace :: "16 word \<Rightarrow> bool" where
  "isWhiteSpace u \<longleftrightarrow>
     u = 0x0009 \<or> u = 0x000A \<or> u = 0x000B \<or> u = 0x000C \<or> u = 0x000D \<or>
     u = 0x0020 \<or> u = 0x00A0 \<or> u = 0x1680 \<or> (0x2000 \<le> u \<and> u \<le> 0x200A) \<or>
     u = 0x2028 \<or> u = 0x2029 \<or> u = 0x202F \<or> u = 0x205F \<or> u = 0x3000 \<or>
     u = 0xFEFF"

definition trim :: "jsstring \<Rightarrow> jsstring" where
  "trim s = rev (dropWhile isWhiteSpace (rev (dropWhile isWhiteSpace s)))"

text \<open>\<open>text.substring(0, n)\<close> for a non-negative \<open>n\<close>.\<close>

definition substring0 :: "jsstring \<Rightarrow> nat \<Rightarrow> jsstring" where
  "substring0 s n = take n s"

text \<open>The regular-expression test of \<open>handleSendMessage\<close>: some code unit lies in U+0600..U+06FF.\<close>

definition hasUrduScript :: "jsstring \<Rightarrow> bool" where
  "hasUrduScript s = list_ex (\<lambda>u. 0x0600 \<le> u \<and> u \<le> 0x06FF) s"

text \<open>\<open>Number.prototype.toString\<close> on an integer: its decimal digits, with a sign.\<close>

definition digitUnit :: "nat \<Rightarrow> 16 word" where
  "digitUnit d = 0x0030 + word_of_nat d"

fun digitsOf :: "nat \<Rightarrow> jsstring" where
  "digitsOf n = (if n < 10 then [digitUnit n] else digitsOf (n div 10) @ [digitUnit (n mod 10)])"

declare digitsOf.simps [simp del]

definition toString :: "int \<Rightarrow> jsstring" where
  "toString n = (if n < 0 then ascii ''-'' @ digitsOf (nat (- n)) else digitsOf (nat n))"

text \<open>
  \<open>Date.now()\<close> reads the system clock. The clock is the sequence of the readings still
  to come; every call takes the first one. No reading is assumed to differ from the one
  before: two calls within one millisecond return the same number.
\<close>

type_synonym clock = "nat \<Rightarrow> int"

definition Date_now :: "clock \<Rightarrow> int \<times> clock" where
  "Date_now c = (c 0, \<lambda>n. c (Suc n))"

section \<open>Data model (types.ts)\<close>

datatype Sender = USER | AI

record Message =
  id_msg :: jsstring
  text_msg :: jsstring
  originalText :: "jsstring option"
  sender :: Sender
  timestamp :: int

record ChatSession =
  id_ses :: jsstring
  title :: jsstring
  messages :: "Message list"
  createdAt :: int
  updatedAt :: int

datatype Voice = en_US | ur_PK

record Settings =
  darkMode :: bool
  voiceEnabled :: bool
  preferredVoice :: Voice
  animationsEnabled :: bool

definition DEFAULT_SETTINGS :: Settings where
  "DEFAULT_SETTINGS =
     \<lparr>darkMode = False, voiceEnabled = True, preferredVoice = en_US, animationsEnabled = True\<rparr>"

section \<open>Application state (App.tsx)\<close>

text \<open>
  The state hooks of \<open>App\<close>. \<open>spoken\<close> is not React state: it logs the requests made
  to the speech bridge, oldest first.
\<close>

record AppState =
  sessions :: "ChatSession list"
  currentSessionId :: jsstring
  settings :: Settings
  isSettingsOpen :: bool
  isHistoryOpen :: bool
  isLoading :: bool
  spoken :: "(jsstring \<times> Voice) list"

definition initialState :: AppState where
  "initialState =
     \<lparr>sessions = [], currentSessionId = [], settings = DEFAULT_SETTINGS,
      isSettingsOpen = False, isHistoryOpen = False, isLoading = False, spoken = []\<rparr>"

text \<open>
  Modelled from the spec: \<open>speak\<close> of the \<open>useSpeech\<close> hook, whose source is not among
  the files. The spec has it fire-and-forget: it requests playback and reports nothing.
\<close>

definition speak :: "jsstring \<Rightarrow> Voice \<Rightarrow> AppState \<Rightarrow> AppState" where
  "speak t v st = st\<lparr>spoken := spoken st @ [(t, v)]\<rparr>"

subsection \<open>createNewSession\<close>

definition newSession :: "int \<Rightarrow> int \<Rightarrow> int \<Rightarrow> ChatSession" where
  "newSession t1 t2 t3 =
     \<lparr>id_ses = toString t1, title = ascii ''New Conversation'', messages = [],
      createdAt = t2, updatedAt = t3\<rparr>"

definition createNewSession :: "AppState \<times> clock \<Rightarrow> AppState \<times> clock" where
  "createNewSession w =
     (let (st, c) = w;
          (t1, c1) = Date_now c;
          (t2, c2) = Date_now c1;
          (t3, c3) = Date_now c2;
          newId = toString t1
      in (st\<lparr>sessions := newSession t1 t2 t3 # sessions st, currentSessionId := newId\<rparr>, c3))"

subsection \<open>addMessageToCurrentSession\<close>

text \<open>The body of the \<open>map\<close> callback for a session whose id is the current one.\<close>

definition appendTo ::
  "jsstring \<Rightarrow> Sender \<Rightarrow> jsstring option \<Rightarrow> clock \<Rightarrow> ChatSession \<Rightarrow> ChatSession \<times> clock" where
  "appendTo txt sndr orig c session =
     (let (t1, c1) = Date_now c;
          (t2, c2) = Date_now c1;
          newMessage = \<lparr>id_msg = toString t1, text_msg = txt, originalText = orig,
                        sender = sndr, timestamp = t2\<rparr>;
          updatedMessages = messages session @ [newMessage];
          newTitle = (if length (messages session) = 0 \<and> sndr = USER
                      then (if length txt > 30 then substring0 txt 30 @ ascii ''...'' else txt)
                      else title session);
          (t3, c3) = Date_now c2
      in (session\<lparr>messages := updatedMessages, title := newTitle, updatedAt := t3\<rparr>, c3))"

text \<open>
  \<open>prev.map(session => ...)\<close>, left to right; the callback reads the clock only for a
  session whose id equals the \<open>currentSessionId\<close> captured by the closure.
\<close>

fun addMessageToCurrentSession ::
  "jsstring \<Rightarrow> jsstring \<Rightarrow> Sender \<Rightarrow> jsstring option \<Rightarrow> clock \<Rightarrow> ChatSession list
     \<Rightarrow> ChatSession list \<times> clock" where
  "addMessageToCurrentSession cid txt sndr orig c [] = ([], c)"
| "addMessageToCurrentSession cid txt sndr orig c (session # rest) =
     (if id_ses session = cid
      then (let (session', c') = appendTo txt sndr orig c session;
                (rest', c'') = addMessageToCurrentSession cid txt sndr orig c' rest
            in (session' # rest', c''))
      else (let (rest', c') = addMessageToCurrentSession cid txt sndr orig c rest
            in (session # rest', c')))"

subsection \<open>handleSendMessage\<close>

text \<open>
  \<open>translateText\<close> is a network call of another module; its outcome is an input of the
  model: \<open>Inr translated\<close> when the promise resolves, \<open>Inl error\<close> when it rejects.

  The closure of \<open>handleSendMessage\<close> holds the \<open>currentSessionId\<close> and \<open>settings\<close>
  of the render that created it; the updaters passed to \<open>setSessions\<close> run on the
  collection as it is when they are applied. The function is therefore split at its
  \<open>await\<close>: \<open>beforeAwait\<close> is everything up to the call, \<open>afterAwait\<close> the rest of the
  \<open>try\<close>, the \<open>catch\<close> and the \<open>finally\<close>.
\<close>

definition FALLBACK_TEXT :: jsstring where
  "FALLBACK_TEXT = ascii ''Error processing request. Please check your internet connection.''"

definition setSessionsAdd ::
  "jsstring \<Rightarrow> jsstring \<Rightarrow> Sender \<Rightarrow> jsstring option \<Rightarrow> AppState \<times> clock \<Rightarrow> AppState \<times> clock" where
  "setSessionsAdd cid txt sndr orig w =
     (let (st, c) = w;
          (ss, c') = addMessageToCurrentSession cid txt sndr orig c (sessions st)
      in (st\<lparr>sessions := ss\<rparr>, c'))"

definition beforeAwait :: "jsstring \<Rightarrow> jsstring \<Rightarrow> AppState \<times> clock \<Rightarrow> AppState \<times> clock" where
  "beforeAwait cid txt w =
     (let (st, c) = setSessionsAdd cid txt USER None w
      in (st\<lparr>isLoading := True\<rparr>, c))"

definition tryBlock ::
  "jsstring \<Rightarrow> Settings \<Rightarrow> jsstring \<Rightarrow> 'e + jsstring \<Rightarrow> AppState \<times> clock
     \<Rightarrow> 'e + AppState \<times> clock" where
  "tryBlock cid stg txt result w =
     (case result of
        Inl error \<Rightarrow> Inl error
      | Inr translated \<Rightarrow>
          (let (st, c) = setSessionsAdd cid translated AI (Some txt) w
           in if voiceEnabled stg
              then (let isUrdu = hasUrduScript translated
                    in Inr (speak translated (if isUrdu then ur_PK else en_US) st, c))
              else Inr (st, c)))"

definition catchBlock :: "jsstring \<Rightarrow> 'e \<Rightarrow> AppState \<times> clock \<Rightarrow> AppState \<times> clock" where
  "catchBlock cid error w = setSessionsAdd cid FALLBACK_TEXT AI None w"

definition finallyBlock :: "AppState \<times> clock \<Rightarrow> AppState \<times> clock" where
  "finallyBlock w = (let (st, c) = w in (st\<lparr>isLoading := False\<rparr>, c))"

definition afterAwait ::
  "jsstring \<Rightarrow> Settings \<Rightarrow> jsstring \<Rightarrow> 'e + jsstring \<Rightarrow> AppState \<times> clock \<Rightarrow> AppState \<times> clock" where
  "afterAwait cid stg txt result w =
     (case tryBlock cid stg txt result w of
        Inr w' \<Rightarrow> finallyBlock w'
      | Inl error \<Rightarrow> finallyBlock (catchBlock cid error w))"

text \<open>A call during which no other event reaches the application.\<close>

definition handleSendMessage :: "jsstring \<Rightarrow> 'e + jsstring \<Rightarrow> AppState \<times> clock \<Rightarrow> AppState \<times> clock" where
  "handleSendMessage txt result w =
     (if trim txt = [] then w
      else (let cid = currentSessionId (fst w); stg = settings (fst w)
            in afterAwait cid stg txt result (beforeAwait cid txt w)))"

text \<open>
  While the call is suspended at its \<open>await\<close> the application stays interactive. The
  events that reach it in that time are a state transformer \<open>during\<close>; the rest of the
  function then runs on the state they leave, with the id and the settings the closure
  captured when the call was made.
\<close>

definition handleSendMessageDuring ::
  "(AppState \<times> clock \<Rightarrow> AppState \<times> clock) \<Rightarrow> jsstring \<Rightarrow> 'e + jsstring \<Rightarrow> AppState \<times> clock
     \<Rightarrow> AppState \<times> clock" where
  "handleSendMessageDuring during txt result w =
     (if trim txt = [] then w
      else (let cid = currentSessionId (fst w); stg = settings (fst w)
            in afterAwait cid stg txt result (during (beforeAwait cid txt w))))"

subsection \<open>Selecting a session\<close>


subsection \<open>deleteSession and clearHistory\<close>

text \<open>\<open>confirmed\<close> is the answer of \<open>window.confirm\<close>.\<close>

definition deleteSession :: "bool \<Rightarrow> jsstring \<Rightarrow> AppState \<times> clock \<Rightarrow> AppState \<times> clock" where
  "deleteSession confirmed i w =
     (let (st, c) = w in
      if confirmed then
        (let remaining = filter (\<lambda>s. id_ses s \<noteq> i) (sessions st) in
         if currentSessionId st = i then
           (if length remaining > 0
            then (st\<lparr>sessions := remaining, currentSessionId := id_ses (remaining ! 0)\<rparr>, c)
            else (let (t1, c1) = Date_now c;
                      newId = toString t1;
                      (t2, c2) = Date_now c1;
                      (t3, c3) = Date_now c2;
                      empty = [\<lparr>id_ses = newId, title = ascii ''New Conversation'',
                                messages = [], createdAt = t2, updatedAt = t3\<rparr>]
                  in (st\<lparr>sessions := empty, currentSessionId := newId\<rparr>, c3)))
         else (st\<lparr>sessions := remaining\<rparr>, c))
      else (st, c))"

definition clearHistory :: "bool \<Rightarrow> AppState \<times> clock \<Rightarrow> AppState \<times> clock" where
  "clearHistory confirmed w =
     (let (st, c) = w in
      if confirmed then
        (let (st', c') = createNewSession (st\<lparr>sessions := []\<rparr>, c)
         in (st'\<lparr>isSettingsOpen := False\<rparr>, c'))
      else (st, c))"

subsection \<open>The initial load\<close>

text \<open>
  What \<open>localStorage.getItem\<close> followed by \<open>JSON.parse\<close> gives for one key:
  nothing stored (or the empty string, which is falsy too), a text that \<open>JSON.parse\<close>
  rejects, or a parsed value.
\<close>

datatype 'a stored = Absent | Malformed | Parsed 'a

text \<open>
  A parsed settings object may lack any field; \<open>{...DEFAULT_SETTINGS, ...parsed}\<close>
  takes each field from \<open>parsed\<close> when it is there and from the defaults otherwise.
\<close>

record PartialSettings =
  darkMode_opt :: "bool option"
  voiceEnabled_opt :: "bool option"
  preferredVoice_opt :: "Voice option"
  animationsEnabled_opt :: "bool option"

definition spread :: "Settings \<Rightarrow> PartialSettings \<Rightarrow> Settings" where
  "spread base over =
     \<lparr>darkMode = (case darkMode_opt over of Some v \<Rightarrow> v | None \<Rightarrow> darkMode base),
      voiceEnabled = (case voiceEnabled_opt over of Some v \<Rightarrow> v | None \<Rightarrow> voiceEnabled base),
      preferredVoice = (case preferredVoice_opt over of Some v \<Rightarrow> v | None \<Rightarrow> preferredVoice base),
      animationsEnabled =
        (case animationsEnabled_opt over of Some v \<Rightarrow> v | None \<Rightarrow> animationsEnabled base)\<rparr>"

definition loadSettings :: "PartialSettings stored \<Rightarrow> AppState \<Rightarrow> AppState" where
  "loadSettings savedSettings st =
     (case savedSettings of
        Absent \<Rightarrow> st
      | Malformed \<Rightarrow> st
      | Parsed p \<Rightarrow> st\<lparr>settings := spread DEFAULT_SETTINGS p\<rparr>)"

definition loadSessions :: "ChatSession list stored \<Rightarrow> AppState \<times> clock \<Rightarrow> AppState \<times> clock" where
  "loadSessions savedSessions w =
     (case savedSessions of
        Absent \<Rightarrow> createNewSession w
      | Malformed \<Rightarrow> createNewSession w
      | Parsed parsed \<Rightarrow>
          (if length parsed > 0
           then (let (st, c) = w
                 in (st\<lparr>sessions := parsed, currentSessionId := id_ses (parsed ! 0)\<rparr>, c))
           else createNewSession w))"

definition initialLoad ::
  "PartialSettings stored \<Rightarrow> ChatSession list stored \<Rightarrow> clock \<Rightarrow> AppState \<times> clock" where
  "initialLoad savedSettings savedSessions c =
     loadSessions savedSessions (loadSettings savedSettings initialState, c)"

subsection \<open>Sequences of session operations\<close>

datatype event = NewChat | DeleteSession jsstring bool | ClearHistory bool

fun step :: "event \<Rightarrow> AppState \<times> clock \<Rightarrow> AppState \<times> clock" where
  "step NewChat w = createNewSession w"
| "step (DeleteSession i confirmed) w = deleteSession confirmed i w"
| "step (ClearHistory confirmed) w = clearHistory confirmed w"

fun run :: "event list \<Rightarrow> AppState \<times> clock \<Rightarrow> AppState \<times> clock" where
  "run [] w = w"
| "run (e # es) w = run es (step e w)"


subsection \<open>Concrete states for the worked instances\<close>

text \<open>
  An empty session with id \<open>"1"\<close>, a session with id \<open>"2"\<close> holding one message, a
  state with both in which the first is current, and a text of 36 code units.
\<close>

definition demoSession :: ChatSession where
  "demoSession =
     \<lparr>id_ses = [0x31], title = ascii ''New Conversation'', messages = [],
      createdAt = 1, updatedAt = 1\<rparr>"

definition demoMessage :: Message where
  "demoMessage =
     \<lparr>id_msg = [0x35], text_msg = [0x68, 0x69], originalText = None, sender = USER,
      timestamp = 5\<rparr>"

definition demoSession2 :: ChatSession where
  "demoSession2 =
     \<lparr>id_ses = [0x32], title = [0x68, 0x69], messages = [demoMessage],
      createdAt = 2, updatedAt = 5\<rparr>"

definition demoState :: AppState where
  "demoState = initialState\<lparr>sessions := [demoSession, demoSession2], currentSessionId := [0x31]\<rparr>"

definition longText :: jsstring where
  "longText = ascii ''abcdefghijklmnopqrstuvwxyz0123456789''"

definition demoState2 :: AppState where
  "demoState2 = demoState\<lparr>currentSessionId := [0x32]\<rparr>"

definition demoSession3 :: ChatSession where
  "demoSession3 =
     \<lparr>id_ses = [0x33], title = ascii ''New Conversation'', messages = [],
      createdAt = 3, updatedAt = 3\<rparr>"

text \<open>Three sessions, of which the one in the middle is current.\<close>

definition threeState :: AppState where
  "threeState =
     initialState\<lparr>sessions := [demoSession, demoSession2, demoSession3],
                    currentSessionId := [0x32]\<rparr>"

definition soleState :: AppState where
  "soleState = initialState\<lparr>sessions := [demoSession], currentSessionId := [0x31]\<rparr>"

text \<open>A translation that succeeds with \<open>"ok"\<close>; no error value is involved.\<close>

abbreviation okReply :: "unit + jsstring" where
  "okReply \<equiv> Inr [0x6F, 0x6B]"

text \<open>A translation that succeeds with a word in Arabic script.\<close>

abbreviation urduReply :: "unit + jsstring" where
  "urduReply \<equiv> Inr [0x0633, 0x0644, 0x0627, 0x0645]"

text \<open>A stored settings object that lacks two of the four fields.\<close>

definition demoBlob :: PartialSettings where
  "demoBlob =
     \<lparr>darkMode_opt = Some True, voiceEnabled_opt = None,
      preferredVoice_opt = Some ur_PK, animationsEnabled_opt = None\<rparr>"

text \<open>A clock that advances by one millisecond from one reading to the next.\<close>

definition tickingClock :: clock where
  "tickingClock = (\<lambda>n. 1000 + int n)"

text \<open>A clock on which every reading is the same: all calls fall within one millisecond.\<close>

definition sameMillisecond :: clock where
  "sameMillisecond = (\<lambda>n. 1000)"

subsection \<open>Auxiliary notions used in the statements\<close>

text \<open>
  The two updates of the collection that one uninterrupted \<open>handleSendMessage\<close> makes:
  the USER message, then the AI message \<open>reply\<close> with \<open>orig\<close> as its original text.
\<close>

definition bothAppends ::
  "jsstring \<Rightarrow> jsstring \<Rightarrow> jsstring \<Rightarrow> jsstring option \<Rightarrow> clock \<Rightarrow> ChatSession list
     \<Rightarrow> ChatSession list" where
  "bothAppends cid txt reply orig c prev =
     fst (addMessageToCurrentSession cid reply AI orig
            (snd (addMessageToCurrentSession cid txt USER None c prev))
            (fst (addMessageToCurrentSession cid txt USER None c prev)))"

text \<open>
  The specification's wording of the session that becomes current when the current
  session \<open>i\<close> is deleted, taken literally: the next session after the deleted one, in
  the prior order, that remains. It is stated only to be compared with what
  \<open>deleteSession\<close> does.
\<close>

definition spec_nextRemaining :: "jsstring \<Rightarrow> ChatSession list \<Rightarrow> ChatSession option" where
  "spec_nextRemaining i prev =
     find (\<lambda>s. id_ses s \<noteq> i) (dropWhile (\<lambda>s. id_ses s \<noteq> i) prev)"

text \<open>The current session id names a session of the collection.\<close>

definition currentInCollection :: "AppState \<Rightarrow> bool" where
  "currentInCollection st \<longleftrightarrow> currentSessionId st \<in> id_ses ` set (sessions st)"

section \<open>Properties of addMessageToCurrentSession\<close>

lemma appendTo_messages:
  "messages (fst (appendTo txt sndr orig c s)) =
     messages s @ [\<lparr>id_msg = toString (c 0), text_msg = txt, originalText = orig,
                    sender = sndr, timestamp = c 1\<rparr>]"
  by (simp add: appendTo_def Date_now_def)

lemma appendTo_id_ses: "id_ses (fst (appendTo txt sndr orig c s)) = id_ses s"
  by (simp add: appendTo_def Date_now_def)

lemma appendTo_title:
  "title (fst (appendTo txt sndr orig c s)) =
     (if messages s = [] \<and> sndr = USER
      then (if 30 < length txt then take 30 txt @ ascii ''...'' else txt)
      else title s)"
  by (simp add: appendTo_def Date_now_def substring0_def)

lemma add_Cons_fst:
  "fst (addMessageToCurrentSession cid txt sndr orig c (s # rest)) =
     (if id_ses s = cid
      then fst (appendTo txt sndr orig c s) #
           fst (addMessageToCurrentSession cid txt sndr orig (snd (appendTo txt sndr orig c s)) rest)
      else s # fst (addMessageToCurrentSession cid txt sndr orig c rest))"
  by (simp add: case_prod_unfold Let_def)

lemma add_length:
  "length (fst (addMessageToCurrentSession cid txt sndr orig c prev)) = length prev"
  by (induction prev arbitrary: c)
     (simp_all add: add_Cons_fst del: addMessageToCurrentSession.simps(2))

lemma add_absent:
  "cid \<notin> id_ses ` set prev \<Longrightarrow> addMessageToCurrentSession cid txt sndr orig c prev = (prev, c)"
  by (induction prev arbitrary: c) auto

lemma add_nth_other:
  "i < length prev \<Longrightarrow> id_ses (prev ! i) \<noteq> cid \<Longrightarrow>
     fst (addMessageToCurrentSession cid txt sndr orig c prev) ! i = prev ! i"
proof (induction prev arbitrary: c i)
  case Nil
  then show ?case by simp
next
  case (Cons s rest)
  then show ?case
    by (cases i) (simp_all add: add_Cons_fst del: addMessageToCurrentSession.simps(2))
qed

text \<open>
  A session with the current id is replaced by what the callback makes of it, at the
  clock as the sessions before it have left it.
\<close>

lemma add_nth_match:
  "i < length prev \<Longrightarrow> id_ses (prev ! i) = cid \<Longrightarrow>
     \<exists>c'. fst (addMessageToCurrentSession cid txt sndr orig c prev) ! i =
            fst (appendTo txt sndr orig c' (prev ! i))"
proof (induction prev arbitrary: c i)
  case Nil
  then show ?case by simp
next
  case (Cons s rest)
  show ?case
  proof (cases i)
    case 0
    with Cons.prems show ?thesis
      by (auto simp add: add_Cons_fst simp del: addMessageToCurrentSession.simps(2))
  next
    case (Suc j)
    with Cons.prems have j: "j < length rest" "id_ses (rest ! j) = cid" by simp_all
    from Suc Cons.IH [OF j] show ?thesis
      by (simp add: add_Cons_fst del: addMessageToCurrentSession.simps(2))
  qed
qed

lemma add_nth_id:
  "i < length prev \<Longrightarrow>
     id_ses (fst (addMessageToCurrentSession cid txt sndr orig c prev) ! i) = id_ses (prev ! i)"
  using add_nth_other [of i prev cid "txt" sndr orig c]
        add_nth_match [of i prev cid "txt" sndr orig c]
  by (cases "id_ses (prev ! i) = cid") (auto simp add: appendTo_id_ses)

lemma toString_1000: "toString 1000 = [0x31, 0x30, 0x30, 0x30]"
  by (simp add: toString_def digitsOf.simps digitUnit_def)

text \<open>
  C4. When a message is appended to a session that has no message yet and the sender is
  USER, the session's title becomes the text itself if the text has at most 30 code
  units, and its first 30 code units followed by \<open>"..."\<close> if it has more. In every other
  case (the session already has a message, or the sender is not USER) the title is left
  as it was, which for a session that never had a first USER message is the
  \<open>"New Conversation"\<close> it was created with.
\<close>

theorem title_derivation:
  assumes "i < length prev" and "id_ses (prev ! i) = cid"
  shows "(messages (prev ! i) = [] \<and> length txt \<le> 30 \<longrightarrow>
            title (fst (addMessageToCurrentSession cid txt USER orig c prev) ! i) = txt) \<and>
         (messages (prev ! i) = [] \<and> length txt > 30 \<longrightarrow>
            title (fst (addMessageToCurrentSession cid txt USER orig c prev) ! i) =
              take 30 txt @ ascii ''...'') \<and>
         (\<not> (messages (prev ! i) = [] \<and> sndr = USER) \<longrightarrow>
            title (fst (addMessageToCurrentSession cid txt sndr orig c prev) ! i) =
              title (prev ! i)) \<and>
         (\<not> (messages (prev ! i) = [] \<and> sndr = USER) \<and>
            title (prev ! i) = ascii ''New Conversation'' \<longrightarrow>
            title (fst (addMessageToCurrentSession cid txt sndr orig c prev) ! i) =
              ascii ''New Conversation'')"
proof -
  from add_nth_match [OF assms] obtain c1 where
    "fst (addMessageToCurrentSession cid txt USER orig c prev) ! i =
       fst (appendTo txt USER orig c1 (prev ! i))" by blast
  moreover from add_nth_match [OF assms] obtain c2 where
    "fst (addMessageToCurrentSession cid txt sndr orig c prev) ! i =
       fst (appendTo txt sndr orig c2 (prev ! i))" by blast
  ultimately show ?thesis by (simp add: appendTo_title)
qed

theorem title_derivation_witness:
  "title (fst (addMessageToCurrentSession [0x31] [0x68, 0x69] USER None (\<lambda>n. 1000)
                 (sessions demoState)) ! 0) = [0x68, 0x69] \<and>
   title (fst (addMessageToCurrentSession [0x31] longText USER None (\<lambda>n. 1000)
                 (sessions demoState)) ! 0) = ascii ''abcdefghijklmnopqrstuvwxyz0123...'' \<and>
   title (fst (addMessageToCurrentSession [0x32] longText USER None (\<lambda>n. 1000)
                 (sessions demoState)) ! 1) = [0x68, 0x69] \<and>
   title (fst (addMessageToCurrentSession [0x31] longText AI None (\<lambda>n. 1000)
                 (sessions demoState)) ! 0) = ascii ''New Conversation''"
proof -
  have i0: "0 < length (sessions demoState)" and i1: "1 < length (sessions demoState)"
    by (simp_all add: demoState_def)
  have m0: "id_ses (sessions demoState ! 0) = [0x31]" and m1: "id_ses (sessions demoState ! 1) = [0x32]"
    by (simp_all add: demoState_def demoSession_def demoSession2_def)
  have e0: "messages (sessions demoState ! 0) = []" "title (sessions demoState ! 0) = ascii ''New Conversation''"
    and e1: "messages (sessions demoState ! 1) \<noteq> []" "title (sessions demoState ! 1) = [0x68, 0x69]"
    by (simp_all add: demoState_def demoSession_def demoSession2_def newSession_def)
  have len: "length longText = 36" "length [0x68, 0x69 :: 16 word] = 2"
    by (simp_all add: longText_def ascii_def)
  have tk: "take 30 longText @ ascii ''...'' = ascii ''abcdefghijklmnopqrstuvwxyz0123...''"
    by (simp add: longText_def ascii_def)
  have a: "title (fst (addMessageToCurrentSession [0x31] [0x68, 0x69] USER None (\<lambda>n. 1000)
                 (sessions demoState)) ! 0) = [0x68, 0x69]"
    using title_derivation [OF i0 m0, of "[0x68, 0x69]" None "\<lambda>n. 1000" AI] e0 by simp
  have b: "title (fst (addMessageToCurrentSession [0x31] longText USER None (\<lambda>n. 1000)
                 (sessions demoState)) ! 0) = ascii ''abcdefghijklmnopqrstuvwxyz0123...''"
    using title_derivation [OF i0 m0, of longText None "\<lambda>n. 1000" AI] e0 len tk by simp
  have c: "title (fst (addMessageToCurrentSession [0x32] longText USER None (\<lambda>n. 1000)
                 (sessions demoState)) ! 1) = [0x68, 0x69]"
    using title_derivation [OF i1 m1, of longText None "\<lambda>n. 1000" USER] e1 by metis
  have d: "title (fst (addMessageToCurrentSession [0x31] longText AI None (\<lambda>n. 1000)
                 (sessions demoState)) ! 0) = ascii ''New Conversation''"
    using title_derivation [OF i0 m0, of longText None "\<lambda>n. 1000" AI] e0 by simp
  from a b c d show ?thesis by blast
qed

text \<open>
  C5. When the target session id matches no session of the collection (for instance
  because the session was deleted while the translation was in flight), appending a
  message changes nothing: the collection comes back as it was, the clock is not even
  read, the rest of the state is untouched, and the operation has no error outcome.
\<close>

theorem stale_append_noop:
  assumes "cid \<notin> id_ses ` set (sessions st)"
  shows "addMessageToCurrentSession cid txt sndr orig c (sessions st) = (sessions st, c) \<and>
         setSessionsAdd cid txt sndr orig (st, c) = (st, c)"
  using assms by (simp add: setSessionsAdd_def add_absent)

theorem stale_append_noop_witness:
  "[0x33] \<notin> id_ses ` set (sessions demoState) \<and>
   addMessageToCurrentSession [0x33] [0x68, 0x69] AI None (\<lambda>n. 1000) (sessions demoState)
     = (sessions demoState, \<lambda>n. 1000) \<and>
   setSessionsAdd [0x33] [0x68, 0x69] AI None (demoState, \<lambda>n. 1000) = (demoState, \<lambda>n. 1000)"
proof -
  have h: "[0x33] \<notin> id_ses ` set (sessions demoState)"
    by (simp add: demoState_def demoSession_def demoSession2_def)
  from stale_append_noop [OF h] h show ?thesis by simp
qed

text \<open>
  C8. Appending a message to a session of the collection leaves the collection's length
  alone, makes that session's message list exactly one longer, and keeps every message
  the session already had, at its position: the old list is a prefix of the new one.
\<close>

theorem append_only:
  assumes "i < length prev" and "id_ses (prev ! i) = cid"
  shows "length (fst (addMessageToCurrentSession cid txt sndr orig c prev)) = length prev \<and>
         length (messages (fst (addMessageToCurrentSession cid txt sndr orig c prev) ! i)) =
           Suc (length (messages (prev ! i))) \<and>
         take (length (messages (prev ! i)))
              (messages (fst (addMessageToCurrentSession cid txt sndr orig c prev) ! i)) =
           messages (prev ! i)"
proof -
  from add_nth_match [OF assms] obtain c' where
    "fst (addMessageToCurrentSession cid txt sndr orig c prev) ! i =
       fst (appendTo txt sndr orig c' (prev ! i))" by blast
  then show ?thesis by (simp add: add_length appendTo_messages)
qed

theorem append_only_witness:
  "1 < length (sessions demoState) \<and> id_ses (sessions demoState ! 1) = [0x32] \<and>
   length (fst (addMessageToCurrentSession [0x32] [0x6F, 0x6B] AI None (\<lambda>n. 1000)
                  (sessions demoState))) = 2 \<and>
   length (messages (fst (addMessageToCurrentSession [0x32] [0x6F, 0x6B] AI None (\<lambda>n. 1000)
                            (sessions demoState)) ! 1)) = 2 \<and>
   take 1 (messages (fst (addMessageToCurrentSession [0x32] [0x6F, 0x6B] AI None (\<lambda>n. 1000)
                            (sessions demoState)) ! 1)) = [demoMessage]"
proof -
  have i1: "1 < length (sessions demoState)"
    by (simp add: demoState_def)
  have m1: "id_ses (sessions demoState ! 1) = [0x32]"
    by (simp add: demoState_def demoSession2_def)
  have old: "messages (sessions demoState ! 1) = [demoMessage]" "length (sessions demoState) = 2"
    by (simp_all add: demoState_def demoSession2_def)
  from append_only [OF i1 m1, of "[0x6F, 0x6B]" AI None "\<lambda>n. 1000"] i1 m1 old
  show ?thesis by simp
qed

section \<open>Properties of handleSendMessage\<close>

lemma add_nth_messages:
  assumes "i < length prev" and "id_ses (prev ! i) = cid"
  shows "\<exists>m. messages (fst (addMessageToCurrentSession cid txt sndr orig c prev) ! i) =
               messages (prev ! i) @ [m] \<and>
             text_msg m = txt \<and> sender m = sndr \<and> originalText m = orig"
proof -
  from add_nth_match [OF assms] obtain c' where
    "fst (addMessageToCurrentSession cid txt sndr orig c prev) ! i =
       fst (appendTo txt sndr orig c' (prev ! i))" by blast
  then show ?thesis by (simp add: appendTo_messages)
qed

lemma bothAppends_length: "length (bothAppends cid txt reply orig c prev) = length prev"
  by (simp add: bothAppends_def add_length)

lemma bothAppends_other:
  "i < length prev \<Longrightarrow> id_ses (prev ! i) \<noteq> cid \<Longrightarrow> bothAppends cid txt reply orig c prev ! i = prev ! i"
  by (simp add: bothAppends_def add_length add_nth_other)

lemma bothAppends_match:
  assumes "i < length prev" and "id_ses (prev ! i) = cid"
  shows "\<exists>u a. messages (bothAppends cid txt reply orig c prev ! i) = messages (prev ! i) @ [u, a] \<and>
               text_msg u = txt \<and> sender u = USER \<and> originalText u = None \<and>
               text_msg a = reply \<and> sender a = AI \<and> originalText a = orig"
proof -
  let ?c1 = "snd (addMessageToCurrentSession cid txt USER None c prev)"
  let ?s1 = "fst (addMessageToCurrentSession cid txt USER None c prev)"
  from add_nth_messages [OF assms, of "txt" USER None c] obtain u where
    u: "messages (?s1 ! i) = messages (prev ! i) @ [u]"
       "text_msg u = txt" "sender u = USER" "originalText u = None" by blast
  have i1: "i < length ?s1" using assms(1) by (simp add: add_length)
  have m1: "id_ses (?s1 ! i) = cid" using assms by (simp add: add_nth_id)
  from add_nth_messages [OF i1 m1, of reply AI orig ?c1] obtain a where
    a: "messages (bothAppends cid txt reply orig c prev ! i) = messages (?s1 ! i) @ [a]"
       "text_msg a = reply" "sender a = AI" "originalText a = orig"
    unfolding bothAppends_def by blast
  from u a show ?thesis by simp
qed

lemma handleSend_success:
  assumes "trim txt \<noteq> []"
  shows "sessions (fst (handleSendMessage txt (Inr translated) (st, c))) =
           bothAppends (currentSessionId st) txt translated (Some txt) c (sessions st)"
    and "isLoading (fst (handleSendMessage txt (Inr translated) (st, c))) = False"
    and "currentSessionId (fst (handleSendMessage txt (Inr translated) (st, c))) = currentSessionId st"
  using assms
  by (simp_all add: handleSendMessage_def afterAwait_def beforeAwait_def tryBlock_def
        finallyBlock_def speak_def setSessionsAdd_def bothAppends_def case_prod_unfold Let_def)

lemma handleSend_failure:
  assumes "trim txt \<noteq> []"
  shows "sessions (fst (handleSendMessage txt (Inl e) (st, c))) =
           bothAppends (currentSessionId st) txt FALLBACK_TEXT None c (sessions st)"
    and "isLoading (fst (handleSendMessage txt (Inl e) (st, c))) = False"
    and "currentSessionId (fst (handleSendMessage txt (Inl e) (st, c))) = currentSessionId st"
  using assms
  by (simp_all add: handleSendMessage_def afterAwait_def beforeAwait_def tryBlock_def
        finallyBlock_def catchBlock_def setSessionsAdd_def bothAppends_def case_prod_unfold Let_def)

lemma bothAppends_added:
  assumes "i < length prev" and "id_ses (prev ! i) = cid"
  shows "take (length (messages (prev ! i))) (messages (bothAppends cid txt reply orig c prev ! i)) =
           messages (prev ! i)"
    and "map text_msg (drop (length (messages (prev ! i))) (messages (bothAppends cid txt reply orig c prev ! i))) =
           [txt, reply]"
    and "map sender (drop (length (messages (prev ! i))) (messages (bothAppends cid txt reply orig c prev ! i))) =
           [USER, AI]"
    and "map originalText (drop (length (messages (prev ! i))) (messages (bothAppends cid txt reply orig c prev ! i))) =
           [None, orig]"
  using bothAppends_match [OF assms, of "txt" reply orig c] by auto





lemma handleSendMessage_uninterrupted:
  "handleSendMessage txt result w = handleSendMessageDuring (\<lambda>w. w) txt result w"
  by (simp add: handleSendMessage_def handleSendMessageDuring_def)
















text \<open>
  X8. A call that no other event interrupts and whose translation succeeds: the session
  that is current gains exactly two messages, at the end and next to each other, first the USER
  message with the input, then the AI message with the translation and the input as
  its \<open>originalText\<close>; every session with another id is as before, and the loading flag
  is false at the end.
\<close>

theorem send_success:
  assumes "trim txt \<noteq> []" and "i < length (sessions st)"
    and "id_ses (sessions st ! i) = currentSessionId st"
  shows "length (sessions (fst (handleSendMessage txt (Inr translated) (st, c)))) = length (sessions st) \<and>
         take (length (messages (sessions st ! i)))
           (messages (sessions (fst (handleSendMessage txt (Inr translated) (st, c))) ! i)) =
           messages (sessions st ! i) \<and>
         map text_msg (drop (length (messages (sessions st ! i)))
           (messages (sessions (fst (handleSendMessage txt (Inr translated) (st, c))) ! i))) =
           [txt, translated] \<and>
         map sender (drop (length (messages (sessions st ! i)))
           (messages (sessions (fst (handleSendMessage txt (Inr translated) (st, c))) ! i))) =
           [USER, AI] \<and>
         map originalText (drop (length (messages (sessions st ! i)))
           (messages (sessions (fst (handleSendMessage txt (Inr translated) (st, c))) ! i))) =
           [None, Some txt] \<and>
         (\<forall>j < length (sessions st). id_ses (sessions st ! j) \<noteq> currentSessionId st \<longrightarrow>
             sessions (fst (handleSendMessage txt (Inr translated) (st, c))) ! j = sessions st ! j) \<and>
         isLoading (fst (handleSendMessage txt (Inr translated) (st, c))) = False"
proof -
  have eq: "sessions (fst (handleSendMessage txt (Inr translated) (st, c))) =
              bothAppends (currentSessionId st) txt translated (Some txt) c (sessions st)"
    and fin: "isLoading (fst (handleSendMessage txt (Inr translated) (st, c))) = False"
    by (rule handleSend_success [OF assms(1)])+
  have other: "\<forall>j < length (sessions st). id_ses (sessions st ! j) \<noteq> currentSessionId st \<longrightarrow>
      bothAppends (currentSessionId st) txt translated (Some txt) c (sessions st) ! j = sessions st ! j"
    by (simp add: bothAppends_other)
  show ?thesis
    unfolding eq
    using bothAppends_added [OF assms(2,3), of "txt" translated "Some txt" c]
          bothAppends_length [of "currentSessionId st" "txt" translated "Some txt" c "sessions st"]
          other fin
    by blast
qed

theorem send_success_witness:
  "trim [0x68, 0x69] \<noteq> [] \<and> 1 < length (sessions demoState2) \<and>
   id_ses (sessions demoState2 ! 1) = currentSessionId demoState2 \<and>
   length (sessions (fst (handleSendMessage [0x68, 0x69] okReply (demoState2, sameMillisecond)))) = 2 \<and>
   take 1 (messages (sessions (fst (handleSendMessage [0x68, 0x69] okReply
             (demoState2, sameMillisecond))) ! 1)) = [demoMessage] \<and>
   map text_msg (drop 1 (messages (sessions (fst (handleSendMessage [0x68, 0x69] okReply
             (demoState2, sameMillisecond))) ! 1))) = [[0x68, 0x69], [0x6F, 0x6B]] \<and>
   map sender (drop 1 (messages (sessions (fst (handleSendMessage [0x68, 0x69] okReply
             (demoState2, sameMillisecond))) ! 1))) = [USER, AI] \<and>
   map originalText (drop 1 (messages (sessions (fst (handleSendMessage [0x68, 0x69] okReply
             (demoState2, sameMillisecond))) ! 1))) = [None, Some [0x68, 0x69]] \<and>
   sessions (fst (handleSendMessage [0x68, 0x69] okReply (demoState2, sameMillisecond))) ! 0
     = demoSession \<and>
   isLoading (fst (handleSendMessage [0x68, 0x69] okReply (demoState2, sameMillisecond))) = False"
proof -
  have h1: "trim [0x68, 0x69] \<noteq> []"
    by (simp add: trim_def isWhiteSpace_def)
  have h2: "1 < length (sessions demoState2)"
    by (simp add: demoState2_def demoState_def)
  have h3: "id_ses (sessions demoState2 ! 1) = currentSessionId demoState2"
    by (simp add: demoState2_def demoState_def demoSession2_def)
  have old: "messages (sessions demoState2 ! 1) = [demoMessage]"
    and len: "length (sessions demoState2) = 2"
    and zero: "0 < length (sessions demoState2)" "sessions demoState2 ! 0 = demoSession"
      "id_ses (sessions demoState2 ! 0) \<noteq> currentSessionId demoState2"
    by (simp_all add: demoState2_def demoState_def demoSession2_def demoSession_def)
  note t0 = send_success [OF h1 h2 h3, of "[0x6F, 0x6B]" sameMillisecond]
  have one: "length [demoMessage] = 1" by simp
  note t = t0 [unfolded old len one]
  from t0 zero have "sessions (fst (handleSendMessage [0x68, 0x69] okReply
      (demoState2, sameMillisecond))) ! 0 = demoSession"
    by metis
  with t h1 h2 h3 show ?thesis by blast
qed

text \<open>
  X9. A call that no other event interrupts and whose translation fails with any error
  \<open>e\<close>: the session that is current gains exactly two messages, first the USER message
  with the input, then an AI message with the fixed fallback text and no
  \<open>originalText\<close>; every session with another id is as before, and the loading flag is
  false at the end.
\<close>

theorem send_failure:
  assumes "trim txt \<noteq> []" and "i < length (sessions st)"
    and "id_ses (sessions st ! i) = currentSessionId st"
  shows "length (sessions (fst (handleSendMessage txt (Inl e) (st, c)))) = length (sessions st) \<and>
         take (length (messages (sessions st ! i)))
           (messages (sessions (fst (handleSendMessage txt (Inl e) (st, c))) ! i)) =
           messages (sessions st ! i) \<and>
         map text_msg (drop (length (messages (sessions st ! i)))
           (messages (sessions (fst (handleSendMessage txt (Inl e) (st, c))) ! i))) =
           [txt, FALLBACK_TEXT] \<and>
         map sender (drop (length (messages (sessions st ! i)))
           (messages (sessions (fst (handleSendMessage txt (Inl e) (st, c))) ! i))) =
           [USER, AI] \<and>
         map originalText (drop (length (messages (sessions st ! i)))
           (messages (sessions (fst (handleSendMessage txt (Inl e) (st, c))) ! i))) =
           [None, None] \<and>
         (\<forall>j < length (sessions st). id_ses (sessions st ! j) \<noteq> currentSessionId st \<longrightarrow>
             sessions (fst (handleSendMessage txt (Inl e) (st, c))) ! j = sessions st ! j) \<and>
         isLoading (fst (handleSendMessage txt (Inl e) (st, c))) = False"
proof -
  have eq: "sessions (fst (handleSendMessage txt (Inl e) (st, c))) =
              bothAppends (currentSessionId st) txt FALLBACK_TEXT None c (sessions st)"
    and fin: "isLoading (fst (handleSendMessage txt (Inl e) (st, c))) = False"
    by (rule handleSend_failure [OF assms(1)])+
  have other: "\<forall>j < length (sessions st). id_ses (sessions st ! j) \<noteq> currentSessionId st \<longrightarrow>
      bothAppends (currentSessionId st) txt FALLBACK_TEXT None c (sessions st) ! j = sessions st ! j"
    by (simp add: bothAppends_other)
  show ?thesis
    unfolding eq
    using bothAppends_added [OF assms(2,3), of "txt" FALLBACK_TEXT None c]
          bothAppends_length [of "currentSessionId st" "txt" FALLBACK_TEXT None c "sessions st"]
          other fin
    by blast
qed

theorem send_failure_witness:
  "trim [0x68, 0x69] \<noteq> [] \<and> 1 < length (sessions demoState2) \<and>
   id_ses (sessions demoState2 ! 1) = currentSessionId demoState2 \<and>
   length (sessions (fst (handleSendMessage [0x68, 0x69] (Inl ()) (demoState2, sameMillisecond)))) = 2 \<and>
   take 1 (messages (sessions (fst (handleSendMessage [0x68, 0x69] (Inl ())
             (demoState2, sameMillisecond))) ! 1)) = [demoMessage] \<and>
   map text_msg (drop 1 (messages (sessions (fst (handleSendMessage [0x68, 0x69] (Inl ())
             (demoState2, sameMillisecond))) ! 1))) = [[0x68, 0x69], FALLBACK_TEXT] \<and>
   map sender (drop 1 (messages (sessions (fst (handleSendMessage [0x68, 0x69] (Inl ())
             (demoState2, sameMillisecond))) ! 1))) = [USER, AI] \<and>
   map originalText (drop 1 (messages (sessions (fst (handleSendMessage [0x68, 0x69] (Inl ())
             (demoState2, sameMillisecond))) ! 1))) = [None, None] \<and>
   sessions (fst (handleSendMessage [0x68, 0x69] (Inl ()) (demoState2, sameMillisecond))) ! 0
     = demoSession \<and>
   isLoading (fst (handleSendMessage [0x68, 0x69] (Inl ()) (demoState2, sameMillisecond))) = False"
proof -
  have h1: "trim [0x68, 0x69] \<noteq> []"
    by (simp add: trim_def isWhiteSpace_def)
  have h2: "1 < length (sessions demoState2)"
    by (simp add: demoState2_def demoState_def)
  have h3: "id_ses (sessions demoState2 ! 1) = currentSessionId demoState2"
    by (simp add: demoState2_def demoState_def demoSession2_def)
  have old: "messages (sessions demoState2 ! 1) = [demoMessage]"
    and len: "length (sessions demoState2) = 2"
    and zero: "0 < length (sessions demoState2)" "sessions demoState2 ! 0 = demoSession"
      "id_ses (sessions demoState2 ! 0) \<noteq> currentSessionId demoState2"
    by (simp_all add: demoState2_def demoState_def demoSession2_def demoSession_def)
  note t0 = send_failure [OF h1 h2 h3, of "()" sameMillisecond]
  have one: "length [demoMessage] = 1" by simp
  note t = t0 [unfolded old len one]
  from t0 zero have "sessions (fst (handleSendMessage [0x68, 0x69] (Inl ())
      (demoState2, sameMillisecond))) ! 0 = demoSession"
    by metis
  with t h1 h2 h3 show ?thesis by blast
qed

text \<open>
  C9 (fails on the code). A message's id is the decimal rendering of the clock reading
  taken when it is created. When the translation fails within the millisecond in which
  the text was sent, the USER message and the fallback AI message of the same session
  carry the same id.
\<close>

theorem message_ids_collide:
  "messages (sessions (fst (handleSendMessage [0x68, 0x69] (Inl ()) (demoState, sameMillisecond))) ! 0) =
    [\<lparr>id_msg = [0x31, 0x30, 0x30, 0x30], text_msg = [0x68, 0x69], originalText = None,
       sender = USER, timestamp = 1000\<rparr>,
     \<lparr>id_msg = [0x31, 0x30, 0x30, 0x30], text_msg = FALLBACK_TEXT, originalText = None,
       sender = AI, timestamp = 1000\<rparr>] \<and>
   \<not> distinct (map id_msg (messages (sessions (fst (handleSendMessage [0x68, 0x69] (Inl ())
                   (demoState, sameMillisecond))) ! 0)))"
proof -
  have tr: "trim [0x68, 0x69] = [0x68, 0x69]"
    by (simp add: trim_def isWhiteSpace_def)
  have ev: "messages (sessions (fst (handleSendMessage [0x68, 0x69] (Inl ())
              (demoState, sameMillisecond))) ! 0) =
    [\<lparr>id_msg = [0x31, 0x30, 0x30, 0x30], text_msg = [0x68, 0x69], originalText = None,
       sender = USER, timestamp = 1000\<rparr>,
     \<lparr>id_msg = [0x31, 0x30, 0x30, 0x30], text_msg = FALLBACK_TEXT, originalText = None,
       sender = AI, timestamp = 1000\<rparr>]"
    by (simp add: tr handleSendMessage_def afterAwait_def beforeAwait_def tryBlock_def
          finallyBlock_def catchBlock_def setSessionsAdd_def demoState_def demoSession_def
          demoSession2_def appendTo_def Date_now_def toString_1000 substring0_def
          initialState_def sameMillisecond_def Let_def)
  show ?thesis unfolding ev by simp
qed

text \<open>
  X1. A text that is empty after trimming is ignored: \<open>handleSendMessage\<close> returns
  at once, the state is as before and the clock is not read.
\<close>

theorem blank_send_noop:
  assumes "trim txt = []"
  shows "handleSendMessage txt result w = w"
  using assms by (simp add: handleSendMessage_def)

theorem blank_send_noop_witness:
  "trim [0x0020, 0x0009, 0x3000] = [] \<and>
   handleSendMessage [0x0020, 0x0009, 0x3000] okReply (demoState, tickingClock) =
     (demoState, tickingClock)"
proof -
  have h: "trim [0x0020, 0x0009, 0x3000] = []"
    by (simp add: trim_def isWhiteSpace_def)
  from blank_send_noop [OF h] h show ?thesis by blast
qed

text \<open>
  X2. The part of \<open>handleSendMessage\<close> that runs after the translation call has
  settled, when by then no session has the id the call captured: whatever the outcome
  of the translation, the collection is as it was, the clock is not read, and the
  loading flag is set to false.
\<close>

theorem stale_reply_dropped:
  assumes "cid \<notin> id_ses ` set (sessions st)"
  shows "sessions (fst (afterAwait cid stg txt result (st, c))) = sessions st \<and>
         isLoading (fst (afterAwait cid stg txt result (st, c))) = False \<and>
         snd (afterAwait cid stg txt result (st, c)) = c"
  using assms
  by (cases result)
     (simp_all add: afterAwait_def tryBlock_def catchBlock_def finallyBlock_def
        setSessionsAdd_def add_absent speak_def)

theorem stale_reply_dropped_witness:
  "[0x31] \<notin> id_ses ` set (sessions (fst (deleteSession True [0x31]
       (beforeAwait [0x31] [0x68, 0x69] (demoState, tickingClock))))) \<and>
   sessions (fst (afterAwait [0x31] DEFAULT_SETTINGS [0x68, 0x69] okReply
      (deleteSession True [0x31] (beforeAwait [0x31] [0x68, 0x69] (demoState, tickingClock))))) =
     [demoSession2] \<and>
   isLoading (fst (afterAwait [0x31] DEFAULT_SETTINGS [0x68, 0x69] okReply
      (deleteSession True [0x31] (beforeAwait [0x31] [0x68, 0x69] (demoState, tickingClock))))) =
     False"
proof -
  have d: "deleteSession True [0x31] (beforeAwait [0x31] [0x68, 0x69] (demoState, tickingClock)) =
      (demoState\<lparr>sessions := [demoSession2], currentSessionId := [0x32], isLoading := True\<rparr>,
       \<lambda>n. 1003 + int n)"
    by (simp add: beforeAwait_def setSessionsAdd_def deleteSession_def demoState_def
          demoSession_def demoSession2_def appendTo_def Date_now_def tickingClock_def
          initialState_def Let_def)
  have s: "sessions
      (demoState\<lparr>sessions := [demoSession2], currentSessionId := [0x32], isLoading := True\<rparr>) =
      [demoSession2]"
    by simp
  have h: "[0x31] \<notin> id_ses ` set (sessions
      (demoState\<lparr>sessions := [demoSession2], currentSessionId := [0x32], isLoading := True\<rparr>))"
    by (simp add: demoSession2_def)
  note t = stale_reply_dropped [OF h, of DEFAULT_SETTINGS "[0x68, 0x69]" okReply
         "\<lambda>n. 1003 + int n", unfolded s]
  have h': "[0x31] \<notin> id_ses ` set (sessions (fst
      (demoState\<lparr>sessions := [demoSession2], currentSessionId := [0x32], isLoading := True\<rparr>,
       \<lambda>n. 1003 + int n)))"
    using h by simp
  from t h' show ?thesis unfolding d by blast
qed

text \<open>
  X3. What is requested of the speech bridge by a call with a text that is not blank:
  on success, when voice output is enabled in the settings of the call, one utterance,
  the translation, with the Urdu voice if the translation has a code unit in
  U+0600..U+06FF and the English voice otherwise; nothing when voice output is
  disabled, and nothing when the translation fails.
\<close>

theorem speak_translation:
  assumes "trim txt \<noteq> []"
  shows "spoken (fst (handleSendMessage txt result (st, c))) =
           (case result of
              Inr translated \<Rightarrow>
                if voiceEnabled (settings st)
                then spoken st @ [(translated, if hasUrduScript translated then ur_PK else en_US)]
                else spoken st
            | Inl e \<Rightarrow> spoken st)"
  using assms
  by (cases result)
     (simp_all add: handleSendMessage_def afterAwait_def beforeAwait_def tryBlock_def
        finallyBlock_def catchBlock_def setSessionsAdd_def speak_def case_prod_unfold Let_def)

theorem speak_translation_witness:
  "trim [0x68, 0x69] \<noteq> [] \<and>
   spoken (fst (handleSendMessage [0x68, 0x69] urduReply (demoState, tickingClock))) =
     [([0x0633, 0x0644, 0x0627, 0x0645], ur_PK)] \<and>
   spoken (fst (handleSendMessage [0x68, 0x69] okReply (demoState, tickingClock))) =
     [([0x6F, 0x6B], en_US)] \<and>
   spoken (fst (handleSendMessage [0x68, 0x69] (Inl ()) (demoState, tickingClock))) = []"
proof -
  have h: "trim [0x68, 0x69] \<noteq> []"
    by (simp add: trim_def isWhiteSpace_def)
  have v: "voiceEnabled (settings demoState)" "spoken demoState = []"
    by (simp_all add: demoState_def initialState_def DEFAULT_SETTINGS_def)
  have u: "hasUrduScript [0x0633, 0x0644, 0x0627, 0x0645]" "\<not> hasUrduScript [0x6F, 0x6B]"
    by (simp_all add: hasUrduScript_def)
  have a: "spoken (fst (handleSendMessage [0x68, 0x69] urduReply (demoState, tickingClock))) =
     [([0x0633, 0x0644, 0x0627, 0x0645], ur_PK)]"
    using speak_translation [OF h, of urduReply demoState tickingClock] v u by simp
  have b: "spoken (fst (handleSendMessage [0x68, 0x69] okReply (demoState, tickingClock))) =
     [([0x6F, 0x6B], en_US)]"
    using speak_translation [OF h, of okReply demoState tickingClock] v u by simp
  have c: "spoken (fst (handleSendMessage [0x68, 0x69] (Inl ()) (demoState, tickingClock))) = []"
    using speak_translation [OF h, of "Inl ()" demoState tickingClock] v by simp
  from h a b c show ?thesis by blast
qed


section \<open>Properties of the session operations\<close>

lemma createNewSession_sessions:
  "sessions (fst (createNewSession (st, c))) = newSession (c 0) (c 1) (c 2) # sessions st"
  "currentSessionId (fst (createNewSession (st, c))) = toString (c 0)"
  by (simp_all add: createNewSession_def Date_now_def numeral_2_eq_2)

lemma createNewSession_current: "currentInCollection (fst (createNewSession w))"
  by (cases w) (simp add: currentInCollection_def createNewSession_sessions newSession_def)

lemma deleteSession_unconfirmed: "deleteSession False i w = w"
  by (cases w) (simp add: deleteSession_def)

lemma deleteSession_other:
  "currentSessionId st \<noteq> i \<Longrightarrow>
     deleteSession True i (st, c) = (st\<lparr>sessions := filter (\<lambda>s. id_ses s \<noteq> i) (sessions st)\<rparr>, c)"
  by (simp add: deleteSession_def)

lemma deleteSession_current:
  "currentSessionId st = i \<Longrightarrow>
     deleteSession True i (st, c) =
       (if filter (\<lambda>s. id_ses s \<noteq> i) (sessions st) \<noteq> []
        then (st\<lparr>sessions := filter (\<lambda>s. id_ses s \<noteq> i) (sessions st),
                 currentSessionId := id_ses (hd (filter (\<lambda>s. id_ses s \<noteq> i) (sessions st)))\<rparr>, c)
        else (st\<lparr>sessions := [newSession (c 0) (c 1) (c 2)], currentSessionId := toString (c 0)\<rparr>,
              \<lambda>n. c (Suc (Suc (Suc n)))))"
  by (simp add: deleteSession_def Date_now_def newSession_def Let_def hd_conv_nth numeral_2_eq_2)

lemma deleteSession_current_inv:
  "currentInCollection st \<Longrightarrow> currentInCollection (fst (deleteSession confirmed i (st, c)))"
proof (cases confirmed)
  case False
  assume "currentInCollection st"
  with False show ?thesis by (simp add: deleteSession_unconfirmed)
next
  case True
  assume inv: "currentInCollection st"
  show ?thesis
  proof (cases "currentSessionId st = i")
    case False
    with inv True show ?thesis
      by (auto simp add: deleteSession_other currentInCollection_def)
  next
    case same: True
    let ?r = "filter (\<lambda>s. id_ses s \<noteq> i) (sessions st)"
    show ?thesis
    proof (cases "?r = []")
      case True
      with same \<open>confirmed\<close> show ?thesis
        by (simp add: deleteSession_current currentInCollection_def newSession_def)
    next
      case False
      then have "hd ?r \<in> set ?r" by (rule hd_in_set)
      then have "id_ses (hd ?r) \<in> id_ses ` set ?r" by (rule imageI)
      with False same \<open>confirmed\<close> show ?thesis
        by (simp add: deleteSession_current currentInCollection_def)
    qed
  qed
qed

lemma clearHistory_inv:
  "currentInCollection st \<Longrightarrow> currentInCollection (fst (clearHistory confirmed (st, c)))"
  by (simp add: clearHistory_def currentInCollection_def createNewSession_def Date_now_def
        newSession_def case_prod_unfold Let_def)

lemma step_inv: "currentInCollection (fst w) \<Longrightarrow> currentInCollection (fst (step e w))"
  by (cases e; cases w) (simp_all add: createNewSession_current deleteSession_current_inv clearHistory_inv)

lemma run_inv: "currentInCollection (fst w) \<Longrightarrow> currentInCollection (fst (run es w))"
  by (induction es arbitrary: w) (simp_all add: step_inv)

lemma initialLoad_inv: "currentInCollection (fst (initialLoad savedSettings savedSessions c))"
proof (cases savedSessions)
  case Absent
  then show ?thesis by (simp add: initialLoad_def loadSessions_def createNewSession_current)
next
  case Malformed
  then show ?thesis by (simp add: initialLoad_def loadSessions_def createNewSession_current)
next
  case (Parsed parsed)
  then show ?thesis
  proof (cases parsed)
    case Nil
    with Parsed show ?thesis
      by (simp add: initialLoad_def loadSessions_def createNewSession_current)
  next
    case (Cons s rest)
    with Parsed show ?thesis
      by (simp add: initialLoad_def loadSessions_def currentInCollection_def)
  qed
qed

lemma inv_nonempty: "currentInCollection st \<Longrightarrow> sessions st \<noteq> []"
  by (auto simp add: currentInCollection_def)



lemma find_filter_conv:
  "find P xs = (case filter P xs of [] \<Rightarrow> None | x # _ \<Rightarrow> Some x)"
  by (induction xs) simp_all

lemma run_demo:
  "run [NewChat, DeleteSession (toString 1000) True, ClearHistory True]
       (initialLoad Absent Absent tickingClock) =
     (initialState\<lparr>sessions := [newSession 1006 1007 1008], currentSessionId := toString 1006\<rparr>,
      \<lambda>n. 1009 + int n)"
  by (simp add: initialLoad_def loadSessions_def loadSettings_def createNewSession_def
        deleteSession_def clearHistory_def Date_now_def tickingClock_def newSession_def
        initialState_def Let_def toString_def digitsOf.simps digitUnit_def)

text \<open>
  C2. After the initial load, whatever was stored, and after any sequence of
  create-session, delete-session (confirmed or not) and clear-all (confirmed or not)
  operations, the collection is not empty. If it holds a single session, deleting that
  session gives a collection of exactly one session, which has no messages, is titled
  \<open>"New Conversation"\<close> and is the current one.
\<close>

theorem collection_never_empty:
  "sessions (fst (run es (initialLoad savedSettings savedSessions c))) \<noteq> [] \<and>
   (\<forall>s. sessions (fst (run es (initialLoad savedSettings savedSessions c))) = [s] \<longrightarrow>
      length (sessions (fst (deleteSession True (id_ses s)
                (run es (initialLoad savedSettings savedSessions c))))) = 1 \<and>
      messages (hd (sessions (fst (deleteSession True (id_ses s)
                (run es (initialLoad savedSettings savedSessions c)))))) = [] \<and>
      title (hd (sessions (fst (deleteSession True (id_ses s)
                (run es (initialLoad savedSettings savedSessions c)))))) = ascii ''New Conversation'' \<and>
      currentSessionId (fst (deleteSession True (id_ses s)
                (run es (initialLoad savedSettings savedSessions c)))) =
        id_ses (hd (sessions (fst (deleteSession True (id_ses s)
                (run es (initialLoad savedSettings savedSessions c)))))))"
proof -
  obtain st k where w: "run es (initialLoad savedSettings savedSessions c) = (st, k)"
    by (cases "run es (initialLoad savedSettings savedSessions c)")
  have inv: "currentInCollection st"
    using run_inv [OF initialLoad_inv, of es savedSettings savedSessions c] w by simp
  have sole: "sessions (fst (deleteSession True (id_ses s) (st, k))) = [newSession (k 0) (k 1) (k 2)] \<and>
      currentSessionId (fst (deleteSession True (id_ses s) (st, k))) = toString (k 0)"
    if "sessions st = [s]" for s
  proof -
    from inv that have "currentSessionId st = id_ses s"
      by (simp add: currentInCollection_def)
    with that show ?thesis by (simp add: deleteSession_current)
  qed
  from inv_nonempty [OF inv] sole show ?thesis
    unfolding w by (auto simp add: newSession_def)
qed

theorem collection_never_empty_witness:
  "sessions (fst (run [NewChat, DeleteSession (toString 1000) True, ClearHistory True]
                    (initialLoad Absent Absent tickingClock))) = [newSession 1006 1007 1008] \<and>
   sessions (fst (deleteSession True (toString 1006)
      (run [NewChat, DeleteSession (toString 1000) True, ClearHistory True]
         (initialLoad Absent Absent tickingClock)))) = [newSession 1009 1010 1011] \<and>
   length (sessions (fst (deleteSession True (toString 1006)
      (run [NewChat, DeleteSession (toString 1000) True, ClearHistory True]
         (initialLoad Absent Absent tickingClock))))) = 1 \<and>
   messages (hd (sessions (fst (deleteSession True (toString 1006)
      (run [NewChat, DeleteSession (toString 1000) True, ClearHistory True]
         (initialLoad Absent Absent tickingClock)))))) = [] \<and>
   title (hd (sessions (fst (deleteSession True (toString 1006)
      (run [NewChat, DeleteSession (toString 1000) True, ClearHistory True]
         (initialLoad Absent Absent tickingClock)))))) = ascii ''New Conversation''"
proof -
  have ev: "sessions (fst (run [NewChat, DeleteSession (toString 1000) True, ClearHistory True]
                    (initialLoad Absent Absent tickingClock))) = [newSession 1006 1007 1008]"
    unfolding run_demo by simp
  have i: "id_ses (newSession 1006 1007 1008) = toString 1006"
    by (simp add: newSession_def)
  have d: "sessions (fst (deleteSession True (toString 1006)
      (run [NewChat, DeleteSession (toString 1000) True, ClearHistory True]
         (initialLoad Absent Absent tickingClock)))) = [newSession 1009 1010 1011]"
    unfolding run_demo
    by (simp add: deleteSession_current newSession_def numeral_2_eq_2)
  from collection_never_empty [of "[NewChat, DeleteSession (toString 1000) True, ClearHistory True]"
          Absent Absent tickingClock, THEN conjunct2, rule_format, OF ev, unfolded i] ev d
  show ?thesis by blast
qed


text \<open>
  C3 (amended). Deleting the session with a given id that is present in the collection:
  if it was the current one, the new current session is the first session of the prior
  order that remains, that is, the head of the collection after the removal, which need
  not be the session that followed the deleted one; if none remains, the collection
  consists of one freshly created session, which is current. Unless that last case
  applies, the resulting collection is the prior one, in its order, without the
  sessions of that id: no session of that id is left and the collection is shorter.
\<close>

theorem delete_session_removes:
  assumes "i \<in> id_ses ` set (sessions st)"
  shows "(currentSessionId st = i \<longrightarrow>
            (case find (\<lambda>s. id_ses s \<noteq> i) (sessions st) of
               Some s \<Rightarrow>
                 sessions (fst (deleteSession True i (st, c))) =
                   filter (\<lambda>s. id_ses s \<noteq> i) (sessions st) \<and>
                 currentSessionId (fst (deleteSession True i (st, c))) = id_ses s
             | None \<Rightarrow>
                 sessions (fst (deleteSession True i (st, c))) = [newSession (c 0) (c 1) (c 2)] \<and>
                 currentSessionId (fst (deleteSession True i (st, c))) =
                   id_ses (newSession (c 0) (c 1) (c 2)))) \<and>
         (\<not> (currentSessionId st = i \<and> find (\<lambda>s. id_ses s \<noteq> i) (sessions st) = None) \<longrightarrow>
            sessions (fst (deleteSession True i (st, c))) =
              filter (\<lambda>s. id_ses s \<noteq> i) (sessions st) \<and>
            i \<notin> id_ses ` set (sessions (fst (deleteSession True i (st, c)))) \<and>
            length (sessions (fst (deleteSession True i (st, c)))) < length (sessions st))"
proof -
  let ?r = "filter (\<lambda>s. id_ses s \<noteq> i) (sessions st)"
  from assms have shorter: "length ?r < length (sessions st)"
    by (auto intro!: length_filter_less)
  have notin: "i \<notin> id_ses ` set ?r" by auto
  show ?thesis
  proof (cases "currentSessionId st = i")
    case False
    with shorter notin show ?thesis by (simp add: deleteSession_other)
  next
    case True
    show ?thesis
    proof (cases ?r)
      case Nil
      with True show ?thesis
        by (simp add: deleteSession_current find_filter_conv newSession_def)
    next
      case (Cons s rest)
      with True shorter notin show ?thesis
        by (simp add: deleteSession_current find_filter_conv)
    qed
  qed
qed

theorem delete_session_removes_witness:
  "[0x32] \<in> id_ses ` set (sessions threeState) \<and> currentSessionId threeState = [0x32] \<and>
   find (\<lambda>s. id_ses s \<noteq> [0x32]) (sessions threeState) = Some demoSession \<and>
   sessions (fst (deleteSession True [0x32] (threeState, tickingClock))) =
     [demoSession, demoSession3] \<and>
   currentSessionId (fst (deleteSession True [0x32] (threeState, tickingClock))) = [0x31] \<and>
   [0x32] \<notin> id_ses ` set (sessions (fst (deleteSession True [0x32] (threeState, tickingClock)))) \<and>
   [0x31] \<in> id_ses ` set (sessions demoState) \<and> currentSessionId demoState = [0x31] \<and>
   sessions (fst (deleteSession True [0x31] (demoState, tickingClock))) = [demoSession2] \<and>
   currentSessionId (fst (deleteSession True [0x31] (demoState, tickingClock))) = [0x32] \<and>
   find (\<lambda>s. id_ses s \<noteq> [0x31]) (sessions soleState) = None \<and>
   sessions (fst (deleteSession True [0x31] (soleState, tickingClock))) = [newSession 1000 1001 1002] \<and>
   currentSessionId (fst (deleteSession True [0x31] (soleState, tickingClock))) = toString 1000"
proof -
  have p0: "[0x32] \<in> id_ses ` set (sessions threeState)"
    and p1: "[0x31] \<in> id_ses ` set (sessions demoState)"
    and p2: "[0x31] \<in> id_ses ` set (sessions soleState)"
    by (simp_all add: threeState_def demoState_def soleState_def demoSession_def demoSession2_def)
  have c0: "currentSessionId threeState = [0x32]"
    and c1: "currentSessionId demoState = [0x31]" and c2: "currentSessionId soleState = [0x31]"
    by (simp_all add: threeState_def demoState_def soleState_def)
  have f0: "find (\<lambda>s. id_ses s \<noteq> [0x32]) (sessions threeState) = Some demoSession"
    and r0: "filter (\<lambda>s. id_ses s \<noteq> [0x32]) (sessions threeState) = [demoSession, demoSession3]"
    and f1: "find (\<lambda>s. id_ses s \<noteq> [0x31]) (sessions demoState) = Some demoSession2"
    and f2: "find (\<lambda>s. id_ses s \<noteq> [0x31]) (sessions soleState) = None"
    and r1: "filter (\<lambda>s. id_ses s \<noteq> [0x31]) (sessions demoState) = [demoSession2]"
    by (simp_all add: threeState_def demoState_def soleState_def demoSession_def demoSession2_def
          demoSession3_def)
  have t: "tickingClock 0 = 1000" "tickingClock 1 = 1001" "tickingClock 2 = 1002"
    by (simp_all add: tickingClock_def)
  have n: "id_ses (newSession 1000 1001 1002) = toString 1000"
    by (simp add: newSession_def)
  have i1: "id_ses demoSession = [0x31]" and i2: "id_ses demoSession2 = [0x32]"
    and i3: "id_ses demoSession3 = [0x33]"
    by (simp_all add: demoSession_def demoSession2_def demoSession3_def)
  from delete_session_removes [OF p0, of tickingClock] c0 f0 r0 i1 i3
  have z: "sessions (fst (deleteSession True [0x32] (threeState, tickingClock))) =
        [demoSession, demoSession3] \<and>
      currentSessionId (fst (deleteSession True [0x32] (threeState, tickingClock))) = [0x31] \<and>
      [0x32] \<notin> id_ses ` set (sessions (fst (deleteSession True [0x32] (threeState, tickingClock))))"
    by simp
  from delete_session_removes [OF p1, of tickingClock] c1 f1 r1 i2
  have a: "sessions (fst (deleteSession True [0x31] (demoState, tickingClock))) = [demoSession2] \<and>
      currentSessionId (fst (deleteSession True [0x31] (demoState, tickingClock))) = [0x32]"
    by simp
  from delete_session_removes [OF p2, of tickingClock] c2 f2 t n
  have b: "sessions (fst (deleteSession True [0x31] (soleState, tickingClock))) = [newSession 1000 1001 1002] \<and>
      currentSessionId (fst (deleteSession True [0x31] (soleState, tickingClock))) = toString 1000"
    by simp
  from z a b p0 p1 c0 c1 f0 f2 show ?thesis by blast
qed


text \<open>
  Read literally, "the next remaining session in the prior order" is the session that
  follows the deleted one. That is not what happens: with three sessions of which the
  middle one is current, deleting it makes the first session current, not the third.
\<close>

theorem delete_session_counterexample:
  "map id_ses (sessions threeState) = [[0x31], [0x32], [0x33]] \<and>
   currentSessionId threeState = [0x32] \<and>
   spec_nextRemaining [0x32] (sessions threeState) = Some demoSession3 \<and>
   id_ses demoSession3 = [0x33] \<and>
   map id_ses (sessions (fst (deleteSession True [0x32] (threeState, tickingClock)))) =
     [[0x31], [0x33]] \<and>
   currentSessionId (fst (deleteSession True [0x32] (threeState, tickingClock))) = [0x31] \<and>
   currentSessionId (fst (deleteSession True [0x32] (threeState, tickingClock))) \<noteq>
     id_ses demoSession3"
  by (simp add: spec_nextRemaining_def deleteSession_def threeState_def demoSession_def
        demoSession2_def demoSession3_def initialState_def Let_def)


text \<open>
  C10. Deleting a session whose id is not the current one changes the state only by
  removing from the collection the sessions of that id: the current session id and
  every other component of the state stay, every other session is kept as it is and
  in its place, and the clock is not read.
\<close>

theorem delete_other_session_frame:
  assumes "i \<noteq> currentSessionId st"
  shows "deleteSession True i (st, c) =
           (st\<lparr>sessions := filter (\<lambda>s. id_ses s \<noteq> i) (sessions st)\<rparr>, c) \<and>
         currentSessionId (fst (deleteSession True i (st, c))) = currentSessionId st \<and>
         (\<forall>s \<in> set (sessions st). id_ses s \<noteq> i \<longrightarrow> s \<in> set (sessions (fst (deleteSession True i (st, c))))) \<and>
         (\<forall>s \<in> set (sessions (fst (deleteSession True i (st, c)))). s \<in> set (sessions st) \<and> id_ses s \<noteq> i)"
  using assms by (auto simp add: deleteSession_other)

theorem delete_other_session_frame_witness:
  "[0x32] \<noteq> currentSessionId demoState \<and>
   deleteSession True [0x32] (demoState, tickingClock) =
     (demoState\<lparr>sessions := [demoSession]\<rparr>, tickingClock) \<and>
   currentSessionId (fst (deleteSession True [0x32] (demoState, tickingClock))) = [0x31]"
proof -
  have h: "[0x32] \<noteq> currentSessionId demoState"
    and c: "currentSessionId demoState = [0x31]"
    and r: "filter (\<lambda>s. id_ses s \<noteq> [0x32]) (sessions demoState) = [demoSession]"
    by (simp_all add: demoState_def demoSession_def demoSession2_def)
  from delete_other_session_frame [OF h, of tickingClock] h c r show ?thesis by simp
qed


text \<open>
  X4. With no stored sessions, a stored text that is not JSON, or a stored empty list,
  the initial load leaves exactly one session, created then: titled
  \<open>"New Conversation"\<close>, without messages, and current.
\<close>

theorem fresh_start:
  assumes "savedSessions = Absent \<or> savedSessions = Malformed \<or> savedSessions = Parsed []"
  shows "sessions (fst (initialLoad savedSettings savedSessions c)) = [newSession (c 0) (c 1) (c 2)] \<and>
         currentSessionId (fst (initialLoad savedSettings savedSessions c)) = toString (c 0) \<and>
         title (newSession (c 0) (c 1) (c 2)) = ascii ''New Conversation'' \<and>
         messages (newSession (c 0) (c 1) (c 2)) = []"
  using assms
  by (auto simp add: initialLoad_def loadSessions_def loadSettings_def createNewSession_sessions
        initialState_def newSession_def split: stored.splits)

theorem fresh_start_witness:
  "sessions (fst (initialLoad Malformed Absent tickingClock)) = [newSession 1000 1001 1002] \<and>
   currentSessionId (fst (initialLoad Malformed Absent tickingClock)) = toString 1000"
proof -
  have t: "tickingClock 0 = 1000" "tickingClock 1 = 1001" "tickingClock 2 = 1002"
    by (simp_all add: tickingClock_def)
  from fresh_start [of Absent Malformed tickingClock] show ?thesis
    unfolding t by simp
qed


text \<open>
  X5. A stored list of sessions that is not empty is restored as it is, its first
  session becomes the current one, and the clock is not read.
\<close>

theorem restore_sessions:
  "sessions (fst (initialLoad savedSettings (Parsed (s # rest)) c)) = s # rest \<and>
   currentSessionId (fst (initialLoad savedSettings (Parsed (s # rest)) c)) = id_ses s \<and>
   snd (initialLoad savedSettings (Parsed (s # rest)) c) = c"
  by (simp add: initialLoad_def loadSessions_def)


text \<open>
  X6. After the initial load and any sequence of create-session, delete-session and
  clear-all operations, the current session id is the id of a session of the
  collection.
\<close>

theorem current_session_exists:
  "currentSessionId (fst (run es (initialLoad savedSettings savedSessions c)))
     \<in> id_ses ` set (sessions (fst (run es (initialLoad savedSettings savedSessions c))))"
  using run_inv [OF initialLoad_inv, of es savedSettings savedSessions c]
  by (simp add: currentInCollection_def)


text \<open>
  X7. \<open>createNewSession\<close> puts a new session without messages at the front of the
  collection, leaves the sessions already there behind it, and makes it current.
\<close>

theorem create_session_front:
  "sessions (fst (createNewSession (st, c))) = newSession (c 0) (c 1) (c 2) # sessions st \<and>
   currentSessionId (fst (createNewSession (st, c))) = id_ses (newSession (c 0) (c 1) (c 2)) \<and>
   messages (newSession (c 0) (c 1) (c 2)) = []"
  by (simp add: createNewSession_sessions newSession_def)


section \<open>Properties of the settings load\<close>

lemma createNewSession_settings: "settings (fst (createNewSession w)) = settings (fst w)"
  by (cases w) (simp add: createNewSession_def Date_now_def)

lemma loadSessions_settings: "settings (fst (loadSessions savedSessions w)) = settings (fst w)"
  by (cases savedSessions; cases w) (simp_all add: loadSessions_def createNewSession_settings)

text \<open>
  C7. After the initial load the settings are a complete \<open>Settings\<close> value: the defaults
  when nothing is stored or the stored text is not JSON, and, when an object is stored,
  field by field the stored value where the object has the field and the default where
  it does not.
\<close>

theorem settings_load_defaults:
  "(blob = Absent \<or> blob = Malformed \<longrightarrow>
      settings (fst (initialLoad blob savedSessions c)) = DEFAULT_SETTINGS) \<and>
   (\<forall>p. blob = Parsed p \<longrightarrow>
      darkMode (settings (fst (initialLoad blob savedSessions c))) =
        (case darkMode_opt p of Some v \<Rightarrow> v | None \<Rightarrow> darkMode DEFAULT_SETTINGS) \<and>
      voiceEnabled (settings (fst (initialLoad blob savedSessions c))) =
        (case voiceEnabled_opt p of Some v \<Rightarrow> v | None \<Rightarrow> voiceEnabled DEFAULT_SETTINGS) \<and>
      preferredVoice (settings (fst (initialLoad blob savedSessions c))) =
        (case preferredVoice_opt p of Some v \<Rightarrow> v | None \<Rightarrow> preferredVoice DEFAULT_SETTINGS) \<and>
      animationsEnabled (settings (fst (initialLoad blob savedSessions c))) =
        (case animationsEnabled_opt p of Some v \<Rightarrow> v | None \<Rightarrow> animationsEnabled DEFAULT_SETTINGS))"
  by (cases blob)
     (simp_all add: initialLoad_def loadSessions_settings loadSettings_def initialState_def spread_def)


theorem settings_load_defaults_witness:
  "settings (fst (initialLoad (Parsed demoBlob) Absent tickingClock)) =
     \<lparr>darkMode = True, voiceEnabled = True, preferredVoice = ur_PK, animationsEnabled = True\<rparr> \<and>
   settings (fst (initialLoad Malformed Absent tickingClock)) = DEFAULT_SETTINGS \<and>
   settings (fst (initialLoad Absent Absent tickingClock)) = DEFAULT_SETTINGS"
proof -
  from settings_load_defaults [of "Parsed demoBlob" Absent tickingClock]
  have "settings (fst (initialLoad (Parsed demoBlob) Absent tickingClock)) =
     \<lparr>darkMode = True, voiceEnabled = True, preferredVoice = ur_PK, animationsEnabled = True\<rparr>"
    by (simp add: demoBlob_def DEFAULT_SETTINGS_def)
  with settings_load_defaults [of Malformed Absent tickingClock]
       settings_load_defaults [of Absent Absent tickingClock]
  show ?thesis by simp
qed


end
